theory Spec2Isabelle
  imports Complex_Main "HOL-Library.Word"
begin

unbundle bit_operations_syntax

section \<open>The pybullet ROS wrapper: data model\<close>

text \<open>
  The embedded program is \<^verbatim>\<open>ros/src/pybullet_ros/pybullet_ros.py\<close>: the class
  \<^verbatim>\<open>pyBulletRosWrapper\<close> and \<^verbatim>\<open>main\<close>. The physics backend (the module
  \<^verbatim>\<open>pybullet\<close>), the middleware (\<^verbatim>\<open>rospy\<close>) and the plugins are external: every
  call the wrapper makes to them that changes something outside the wrapper is recorded,
  in program order, as an \<open>event\<close>; every value they hand back (a parameter, a body id,
  a joint state, the time) is read from the environment record \<open>env\<close>, as a function of
  the calls made so far. External calls are modelled as returning to their caller; the
  one exception raised inside the wrapper's own expressions, the failure of
  \<^verbatim>\<open>bytes.decode\<close>, is a value of type \<open>error\<close>. A run in which an external call
  raises, as pybullet's \<^verbatim>\<open>loadURDF\<close> does for a path that is not a string, ends at that
  call: the calls recorded up to and including it are those of the run, and what the
  model computes after it is not a statement about that run.

  Python floats are only read from the parameter server and passed on unchanged, no
  arithmetic is done on them, so they are modelled by \<open>real\<close>.
\<close>

type_synonym float = real
type_synonym bytes = "8 word list"
type_synonym body_id = int
type_synonym quaternion = "float \<times> float \<times> float \<times> float"
type_synonym time = nat

text \<open>The tuple returned by \<^verbatim>\<open>getJointInfo\<close>: \<^verbatim>\<open>info[1]\<close> and \<^verbatim>\<open>info[2]\<close>.\<close>

record joint_info =
  jointName :: bytes
  jointType :: int

text \<open>The tuple returned by \<^verbatim>\<open>getJointState\<close>: entries 0, 1, 2 and 3.\<close>

record joint_state =
  jointPosition :: float
  jointVelocity :: float
  jointReactionForces :: "float list"
  appliedJointMotorTorque :: float

text \<open>The message \<^verbatim>\<open>sensor_msgs/JointState\<close>.\<close>

record JointState =
  stamp :: time
  name :: "string list"
  position :: "float list"
  velocity :: "float list"
  effort :: "float list"

text \<open>
  A Python dictionary keeps its keys in insertion order, and the wrapper iterates over
  it, so it is an association list; its keys are distinct.
\<close>

type_synonym joint_dict = "(int \<times> string) list"

text \<open>
  A plugin object: the class \<open>plugin_class\<close> of the module \<open>plugin_module\<close>, constructed
  with the robot and the joint dictionary.
\<close>

record plugin =
  plugin_module :: string
  plugin_class :: string
  plugin_robot :: body_id
  plugin_rev_joints :: joint_dict

text \<open>The keyword arguments of the robot's \<^verbatim>\<open>loadURDF\<close> call.\<close>

record urdf_args =
  basePosition :: "float \<times> float \<times> float"
  baseOrientation :: quaternion
  useFixedBase :: bool
  flags :: int

datatype request = reset_simulation | pause_physics | unpause_physics

datatype event =
    InitNode string
  | ImportModule string
  | Publisher string nat
  | Print string
  | Loginfo string
  | Logwarn string
  | Connect int
  | Service string request
  | SetAdditionalSearchPath string
  | SignalShutdown string
  | SetGravity float float float
  | LoadURDF "string option" "urdf_args option"
  | SetRealTimeSimulation int
  | ResetSimulation
  | Publish JointState
  | Construct plugin
  | Execute plugin
  | StepSimulation
  | Sleep float
  | Disconnect

datatype error = UnicodeDecodeError

text \<open>
  The private parameters of the node; \<open>None\<close> is a parameter that is not set, and
  \<^verbatim>\<open>rospy.get_param(name, default)\<close> then returns the default.
\<close>

record ros_params =
  p_loop_rate :: "float option"
  p_pybullet_gui :: "bool option"
  p_pause_simulation :: "bool option"
  p_robot_urdf_path :: "string option"
  p_robot_pose_x :: "float option"
  p_robot_pose_y :: "float option"
  p_robot_pose_z :: "float option"
  p_robot_pose_yaw :: "float option"
  p_fixed_base :: "bool option"
  p_use_intertia_from_file :: "bool option"
  p_gravity :: "float option"
  p_plugins :: "(string \<times> string) list option"

text \<open>
  What the external collaborators answer. The first argument of a backend query is the
  list of calls made so far.
\<close>

record env =
  params :: ros_params
  GUI :: int
  DIRECT :: int
  URDF_USE_INERTIA_FROM_FILE :: int
  URDF_USE_SELF_COLLISION :: int
  getDataPath :: string
  getQuaternionFromEuler :: "float list \<Rightarrow> quaternion"
  loadURDF :: "event list \<Rightarrow> body_id"
  getNumJoints :: "event list \<Rightarrow> body_id \<Rightarrow> int"
  getJointInfo :: "event list \<Rightarrow> body_id \<Rightarrow> int \<Rightarrow> joint_info"
  getJointState :: "event list \<Rightarrow> body_id \<Rightarrow> int \<Rightarrow> joint_state"
  Time_now :: "event list \<Rightarrow> time"
  decode :: "bytes \<Rightarrow> string option"

text \<open>The world outside the wrapper: the calls made so far and rospy's shutdown flag.\<close>

record world =
  calls :: "event list"
  is_shutdown :: bool

text \<open>The attributes of \<^verbatim>\<open>self\<close>.\<close>

record pyBulletRosWrapper =
  loop_rate :: float
  pause_simulation :: bool
  robot :: body_id
  joint_index_name_dic :: joint_dict
  plugins :: "plugin list"

section \<open>The operations\<close>

definition call :: "event \<Rightarrow> world \<Rightarrow> world" where
  "call e w = w\<lparr>calls := calls w @ [e]\<rparr>"

definition get_param :: "'a option \<Rightarrow> 'a \<Rightarrow> 'a" where
  "get_param v dflt = (case v of None \<Rightarrow> dflt | Some x \<Rightarrow> x)"

text \<open>\<^verbatim>\<open>rospy.signal_shutdown(reason)\<close> raises the shutdown flag and returns.\<close>

definition signal_shutdown :: "string \<Rightarrow> world \<Rightarrow> world" where
  "signal_shutdown reason w = (call (SignalShutdown reason) w)\<lparr>is_shutdown := True\<rparr>"

text \<open>\<^verbatim>\<open>d[k] = v\<close>: a new key goes to the end, a present key keeps its place.\<close>

fun dict_setitem :: "('k \<times> 'v) list \<Rightarrow> 'k \<Rightarrow> 'v \<Rightarrow> ('k \<times> 'v) list" where
  "dict_setitem [] k v = [(k, v)]"
| "dict_setitem ((k', v') # d) k v =
     (if k' = k then (k, v) # d else (k', v') # dict_setitem d k v)"

text \<open>\<^verbatim>\<open>range(0, n)\<close>.\<close>

definition range0 :: "int \<Rightarrow> int list" where
  "range0 n = [0..n - 1]"

text \<open>
  The loop of \<^verbatim>\<open>get_all_revolute_joint_names\<close> over the remaining joint indices, with
  the dictionary built so far.
\<close>

fun revolute_loop ::
  "(bytes \<Rightarrow> string option) \<Rightarrow> (int \<Rightarrow> joint_info) \<Rightarrow> int list \<Rightarrow> joint_dict \<Rightarrow> error + joint_dict"
where
  "revolute_loop dec info [] joint_index_name_dictionary = Inr joint_index_name_dictionary"
| "revolute_loop dec info (joint_index # rest) joint_index_name_dictionary =
     (if jointType (info joint_index) = 0
      then (case dec (jointName (info joint_index)) of
              None \<Rightarrow> Inl UnicodeDecodeError
            | Some joint_name \<Rightarrow>
                revolute_loop dec info rest
                  (dict_setitem joint_index_name_dictionary joint_index joint_name))
      else revolute_loop dec info rest joint_index_name_dictionary)"

definition get_all_revolute_joint_names :: "env \<Rightarrow> body_id \<Rightarrow> world \<Rightarrow> error + joint_dict" where
  "get_all_revolute_joint_names e rob w =
     revolute_loop (decode e) (getJointInfo e (calls w) rob)
       (range0 (getNumJoints e (calls w) rob)) []"

definition start_gui :: "env \<Rightarrow> bool \<Rightarrow> world \<Rightarrow> world" where
  "start_gui e gui w =
     (if gui
      then call (Connect (GUI e))
             (call (Loginfo ''-------------------------'')
               (call (Loginfo ''Running pybullet with gui'') w))
      else call (Connect (DIRECT e))
             (call (Loginfo ''-------------------------'')
               (call (Loginfo ''Running pybullet without gui'') w)))"

text \<open>
  \<^verbatim>\<open>init_pybullet_robot\<close> returns the body id that the robot's \<^verbatim>\<open>loadURDF\<close> returns.
\<close>

definition init_pybullet_robot :: "env \<Rightarrow> world \<Rightarrow> body_id \<times> world" where
  "init_pybullet_robot e w =
     (let urdf_path = p_robot_urdf_path (params e);
          w1 = (if urdf_path = None
                then signal_shutdown ''mandatory param robot_urdf_path not set, will exit now'' w
                else w);
          robot_pose_x = get_param (p_robot_pose_x (params e)) 0;
          robot_pose_y = get_param (p_robot_pose_y (params e)) 0;
          robot_pose_z = get_param (p_robot_pose_z (params e)) 1;
          robot_pose_yaw = get_param (p_robot_pose_yaw (params e)) 0;
          robot_spawn_orientation = getQuaternionFromEuler e [0, 0, robot_pose_yaw];
          fixed_base = get_param (p_fixed_base (params e)) False;
          urdf_flags = (if get_param (p_use_intertia_from_file (params e)) False
                        then URDF_USE_INERTIA_FROM_FILE e OR URDF_USE_SELF_COLLISION e
                        else URDF_USE_SELF_COLLISION e);
          gravity = get_param (p_gravity (params e)) (- 981 / 100);
          w2 = call (SetGravity 0 0 gravity) w1;
          w3 = call (LoadURDF (Some ''plane.urdf'') None) w2;
          w4 = call (SetRealTimeSimulation 0) w3;
          w5 = call (LoadURDF urdf_path
                 (Some \<lparr>basePosition = (robot_pose_x, robot_pose_y, robot_pose_z),
                        baseOrientation = robot_spawn_orientation,
                        useFixedBase = fixed_base, flags = urdf_flags\<rparr>)) w4
      in (loadURDF e (calls w5), w5))"

text \<open>The loop of \<^verbatim>\<open>__init__\<close> that constructs the plugins.\<close>

fun load_plugins ::
  "body_id \<Rightarrow> joint_dict \<Rightarrow> (string \<times> string) list \<Rightarrow> plugin list \<times> world \<Rightarrow> plugin list \<times> world"
where
  "load_plugins rob dic [] (ps, w) = (ps, w)"
| "load_plugins rob dic ((key, cls) # rest) (ps, w) =
     (let w1 = call (Loginfo (''loading '' @ cls @ '' class from '' @ key @ '' plugin'')) w;
          obj = \<lparr>plugin_module = key, plugin_class = cls,
                 plugin_robot = rob, plugin_rev_joints = dic\<rparr>;
          w2 = call (Construct obj) w1
      in load_plugins rob dic rest (ps @ [obj], w2))"

definition init :: "env \<Rightarrow> world \<Rightarrow> error + (pyBulletRosWrapper \<times> world)" where
  "init e w =
     (let w1 = call (ImportModule ''pybullet'') w;
          w2 = call (Publisher ''joint_states'' 1) w1;
          rate = get_param (p_loop_rate (params e)) 80;
          is_gui_needed = get_param (p_pybullet_gui (params e)) True;
          pause = get_param (p_pause_simulation (params e)) False;
          w3 = call (Print (CHR 0x1B # ''[34m'')) w2;
          w4 = start_gui e is_gui_needed w3;
          w5 = call (Service ''~reset_simulation'' reset_simulation) w4;
          w6 = call (Service ''~pause_physics'' pause_physics) w5;
          w7 = call (Service ''~unpause_physics'' unpause_physics) w6;
          w8 = call (SetAdditionalSearchPath (getDataPath e)) w7;
          (rob, w9) = init_pybullet_robot e w8
      in case get_all_revolute_joint_names e rob w9 of
           Inl err \<Rightarrow> Inl err
         | Inr dic \<Rightarrow>
             (let plugin_dic = get_param (p_plugins (params e)) [];
                  w10 = (if plugin_dic = []
                         then call (Logwarn ''No plugins found, forgot to set param ~plugins?'') w9
                         else w9);
                  w11 = call (Print (CHR 0x1B # ''[0m'')) w10;
                  (ps, w12) = load_plugins rob dic plugin_dic ([], w11);
                  w13 = call (Loginfo ''pybullet ROS wrapper started'') w12
              in Inr (\<lparr>loop_rate = rate, pause_simulation = pause, robot = rob,
                        joint_index_name_dic = dic, plugins = ps\<rparr>, w13)))"

text \<open>
  The second definition of \<^verbatim>\<open>handle_reset_simulation\<close> (line 117) replaces the first
  (line 65) in the class body, so it is the one the service calls.
\<close>

definition handle_reset_simulation ::
  "env \<Rightarrow> pyBulletRosWrapper \<times> world \<Rightarrow> pyBulletRosWrapper \<times> world" where
  "handle_reset_simulation e sw =
     (let (s, w) = sw;
          w1 = call (Loginfo ''reseting simulation now'') w;
          s1 = s\<lparr>pause_simulation := True\<rparr>;
          w2 = call ResetSimulation w1;
          (new_robot, w3) = init_pybullet_robot e w2;
          s2 = s1\<lparr>pause_simulation := False\<rparr>
      in (s2, w3))"

definition handle_pause_physics ::
  "pyBulletRosWrapper \<times> world \<Rightarrow> pyBulletRosWrapper \<times> world" where
  "handle_pause_physics sw =
     (let (s, w) = sw;
          w1 = call (Loginfo ''pausing simulation'') w
      in (s\<lparr>pause_simulation := False\<rparr>, w1))"

definition handle_unpause_physics ::
  "pyBulletRosWrapper \<times> world \<Rightarrow> pyBulletRosWrapper \<times> world" where
  "handle_unpause_physics sw =
     (let (s, w) = sw;
          w1 = call (Loginfo ''unpausing simulation'') w
      in (s\<lparr>pause_simulation := True\<rparr>, w1))"

text \<open>
  The body of the loop of \<^verbatim>\<open>publish_joint_states\<close>: the key comes from the iteration
  over the dictionary, so \<^verbatim>\<open>self.joint_index_name_dic[joint_index]\<close> is the value
  stored with it.
\<close>

definition fill_msg ::
  "env \<Rightarrow> event list \<Rightarrow> body_id \<Rightarrow> int \<times> string \<Rightarrow> JointState \<Rightarrow> JointState" where
  "fill_msg e cs rob entry joint_msg =
     (let (joint_index, joint_name) = entry;
          js = getJointState e cs rob joint_index
      in joint_msg\<lparr>name := name joint_msg @ [joint_name],
                   position := position joint_msg @ [jointPosition js],
                   velocity := velocity joint_msg @ [jointVelocity js],
                   effort := effort joint_msg @ [appliedJointMotorTorque js]\<rparr>)"

definition empty_JointState :: JointState where
  "empty_JointState = \<lparr>stamp = 0, name = [], position = [], velocity = [], effort = []\<rparr>"

definition publish_joint_states :: "env \<Rightarrow> pyBulletRosWrapper \<Rightarrow> world \<Rightarrow> world" where
  "publish_joint_states e s w =
     (let joint_msg = fold (fill_msg e (calls w) (robot s)) (joint_index_name_dic s)
                        empty_JointState;
          joint_msg = joint_msg\<lparr>stamp := Time_now e (calls w)\<rparr>
      in call (Publish joint_msg) w)"

text \<open>\<^verbatim>\<open>for task in self.plugins: task.execute()\<close>.\<close>

definition run_plugins :: "plugin list \<Rightarrow> world \<Rightarrow> world" where
  "run_plugins ps w = fold (\<lambda>task. call (Execute task)) ps w"

text \<open>One iteration of the loop of \<^verbatim>\<open>start_pybullet_ros_wrapper\<close>.\<close>

definition tick :: "env \<Rightarrow> pyBulletRosWrapper \<times> world \<Rightarrow> pyBulletRosWrapper \<times> world" where
  "tick e sw =
     (let (s, w) = sw;
          w1 = (if \<not> pause_simulation s
                then call StepSimulation
                       (run_plugins (plugins s) (publish_joint_states e s w))
                else w)
      in (s, call (Sleep (loop_rate s)) w1))"

fun handle :: "env \<Rightarrow> request \<Rightarrow> pyBulletRosWrapper \<times> world \<Rightarrow> pyBulletRosWrapper \<times> world" where
  "handle e reset_simulation sw = handle_reset_simulation e sw"
| "handle e pause_physics sw = handle_pause_physics sw"
| "handle e unpause_physics sw = handle_unpause_physics sw"

text \<open>
  The loop. The service handlers run in rospy's own threads; the schedule gives, for
  each iteration, the requests served while the loop sleeps at the end of it. The loop
  ends when the shutdown flag is up, or when the schedule is used up, which stands for
  the shutdown signal from outside; then the backend is disconnected.
\<close>

fun start_pybullet_ros_wrapper ::
  "env \<Rightarrow> request list list \<Rightarrow> pyBulletRosWrapper \<times> world \<Rightarrow> pyBulletRosWrapper \<times> world"
where
  "start_pybullet_ros_wrapper e [] (s, w) = (s, call Disconnect w)"
| "start_pybullet_ros_wrapper e (reqs # sched) (s, w) =
     (if is_shutdown w then (s, call Disconnect w)
      else start_pybullet_ros_wrapper e sched (fold (handle e) reqs (tick e (s, w))))"

definition main :: "env \<Rightarrow> request list list \<Rightarrow> error + (pyBulletRosWrapper \<times> world)" where
  "main e sched =
     (case init e (call (InitNode ''pybullet_ros'') \<lparr>calls = [], is_shutdown = False\<rparr>) of
        Inl err \<Rightarrow> Inl err
      | Inr sw \<Rightarrow> Inr (start_pybullet_ros_wrapper e sched sw))"

section \<open>A concrete environment\<close>

text \<open>
  The theorems below are instantiated on this environment. Its backend numbers the
  bodies as pybullet does, from 0 in load order, starting again when the world is
  emptied; the robot has three joints, of which the first and the third are revolute
  (type code 0) and the second is fixed (type code 4). Its decoder is \<^verbatim>\<open>bytes.decode('utf-8')\<close> on names of 7-bit bytes, where every
  byte is one character; it refuses any other name.
\<close>

definition ascii_decode :: "bytes \<Rightarrow> string option" where
  "ascii_decode bs =
     (if list_all (\<lambda>b. b < 128) bs then Some (map (\<lambda>b. char_of (unat b)) bs) else None)"

definition is_LoadURDF :: "event \<Rightarrow> bool" where
  "is_LoadURDF ev = (case ev of LoadURDF p a \<Rightarrow> True | _ \<Rightarrow> False)"

text \<open>
  The world of the backend is empty after \<^verbatim>\<open>connect\<close> and after \<^verbatim>\<open>resetSimulation\<close>;
  \<open>since_reset cs\<close> is the part of the calls \<open>cs\<close> after the last of these.
\<close>

definition world_emptied :: "event \<Rightarrow> bool" where
  "world_emptied ev = (case ev of Connect m \<Rightarrow> True | ResetSimulation \<Rightarrow> True | _ \<Rightarrow> False)"

definition since_reset :: "event list \<Rightarrow> event list" where
  "since_reset cs = fold (\<lambda>ev acc. if world_emptied ev then [] else acc @ [ev]) cs []"



definition demo_joints :: "joint_info list" where
  "demo_joints =
     [\<lparr>jointName = [0x6A, 0x6F, 0x69, 0x6E, 0x74, 0x31], jointType = 0\<rparr>,
      \<lparr>jointName = [0x62, 0x61, 0x73, 0x65], jointType = 4\<rparr>,
      \<lparr>jointName = [0x6A, 0x6F, 0x69, 0x6E, 0x74, 0x33], jointType = 0\<rparr>]"

definition demo_params :: ros_params where
  "demo_params =
     \<lparr>p_loop_rate = None, p_pybullet_gui = None, p_pause_simulation = None,
      p_robot_urdf_path = Some ''robot.urdf'', p_robot_pose_x = None, p_robot_pose_y = None,
      p_robot_pose_z = None, p_robot_pose_yaw = None, p_fixed_base = None,
      p_use_intertia_from_file = None, p_gravity = None, p_plugins = None\<rparr>"

definition demo_env :: env where
  "demo_env =
     \<lparr>params = demo_params, GUI = 1, DIRECT = 2,
      URDF_USE_INERTIA_FROM_FILE = 2, URDF_USE_SELF_COLLISION = 8,
      getDataPath = ''/pybullet_data'',
      getQuaternionFromEuler = (\<lambda>rpy. (0, 0, 0, 1)),
      loadURDF = (\<lambda>cs. int (length (filter is_LoadURDF (since_reset cs))) - 1),
      getNumJoints = (\<lambda>cs rob. 3),
      getJointInfo = (\<lambda>cs rob i.
         if 0 \<le> i \<and> i < 3 then demo_joints ! nat i else \<lparr>jointName = [], jointType = 4\<rparr>),
      getJointState = (\<lambda>cs rob i.
         \<lparr>jointPosition = of_int i, jointVelocity = 0,
          jointReactionForces = [], appliedJointMotorTorque = 0\<rparr>),
      Time_now = length,
      decode = ascii_decode\<rparr>"

text \<open>The same environment with the parameter \<^verbatim>\<open>~robot_urdf_path\<close> not set.\<close>

definition no_path_env :: env where
  "no_path_env = demo_env\<lparr>params := demo_params\<lparr>p_robot_urdf_path := None\<rparr>\<rparr>"

definition demo_world :: world where
  "demo_world = \<lparr>calls = [], is_shutdown = False\<rparr>"

definition demo_plugin :: plugin where
  "demo_plugin = \<lparr>plugin_module = ''pybullet_ros.plugins.control'', plugin_class = ''Control'',
                   plugin_robot = 1, plugin_rev_joints = [(0, ''joint1''), (2, ''joint3'')]\<rparr>"

definition demo_self :: pyBulletRosWrapper where
  "demo_self = \<lparr>loop_rate = 80, pause_simulation = False, robot = 1,
                 joint_index_name_dic = [(0, ''joint1''), (2, ''joint3'')],
                 plugins = [demo_plugin]\<rparr>"

section \<open>Order of calls\<close>

text \<open>
  \<open>occurs_before P Q cs\<close>: some call of \<open>cs\<close> that satisfies \<open>P\<close> is followed, later in
  \<open>cs\<close>, by a call that satisfies \<open>Q\<close>.
\<close>

fun occurs_before :: "('a \<Rightarrow> bool) \<Rightarrow> ('a \<Rightarrow> bool) \<Rightarrow> 'a list \<Rightarrow> bool" where
  "occurs_before P Q [] = False"
| "occurs_before P Q (x # xs) = ((P x \<and> list_ex Q xs) \<or> occurs_before P Q xs)"

text \<open>The robot is the one model loaded with keyword arguments.\<close>

definition is_robot_load :: "event \<Rightarrow> bool" where
  "is_robot_load ev = (case ev of LoadURDF p (Some a) \<Rightarrow> True | _ \<Rightarrow> False)"

definition is_plane_load :: "event \<Rightarrow> bool" where
  "is_plane_load ev = (ev = LoadURDF (Some ''plane.urdf'') None)"

definition is_SetGravity :: "event \<Rightarrow> bool" where
  "is_SetGravity ev = (case ev of SetGravity x y z \<Rightarrow> True | _ \<Rightarrow> False)"

section \<open>Basic facts\<close>

lemma calls_call [simp]: "calls (call ev w) = calls w @ [ev]"
  by (simp add: call_def)

lemma is_shutdown_call [simp]: "is_shutdown (call ev w) = is_shutdown w"
  by (simp add: call_def)

lemma fold_fill_msg:
  "fold (fill_msg e cs rob) dic m =
     m\<lparr>name := name m @ map snd dic,
       position := position m @ map (\<lambda>entry. jointPosition (getJointState e cs rob (fst entry))) dic,
       velocity := velocity m @ map (\<lambda>entry. jointVelocity (getJointState e cs rob (fst entry))) dic,
       effort := effort m @ map (\<lambda>entry. appliedJointMotorTorque (getJointState e cs rob (fst entry))) dic\<rparr>"
proof (induction dic arbitrary: m)
  case Nil
  show ?case by simp
next
  case (Cons entry dic)
  have step: "fill_msg e cs rob entry m =
      m\<lparr>name := name m @ [snd entry],
        position := position m @ [jointPosition (getJointState e cs rob (fst entry))],
        velocity := velocity m @ [jointVelocity (getJointState e cs rob (fst entry))],
        effort := effort m @ [appliedJointMotorTorque (getJointState e cs rob (fst entry))]\<rparr>"
    by (cases entry) (simp add: fill_msg_def Let_def)
  show ?case
    by (simp add: Cons.IH step)
qed

lemma run_plugins_calls: "run_plugins ps w = w\<lparr>calls := calls w @ map Execute ps\<rparr>"
  unfolding run_plugins_def
  by (induction ps arbitrary: w) (simp_all add: call_def)

lemma publish_joint_states_eq:
  "publish_joint_states e s w =
     w\<lparr>calls := calls w @
        [Publish \<lparr>stamp = Time_now e (calls w),
                  name = map snd (joint_index_name_dic s),
                  position = map (\<lambda>entry. jointPosition (getJointState e (calls w) (robot s) (fst entry))) (joint_index_name_dic s),
                  velocity = map (\<lambda>entry. jointVelocity (getJointState e (calls w) (robot s) (fst entry))) (joint_index_name_dic s),
                  effort = map (\<lambda>entry. appliedJointMotorTorque (getJointState e (calls w) (robot s) (fst entry))) (joint_index_name_dic s)\<rparr>]\<rparr>"
  by (simp add: publish_joint_states_def fold_fill_msg empty_JointState_def call_def)

lemma tick_paused_eq:
  "pause_simulation s \<Longrightarrow> tick e (s, w) = (s, w\<lparr>calls := calls w @ [Sleep (loop_rate s)]\<rparr>)"
  by (simp add: tick_def call_def)

lemma tick_running_eq:
  "\<not> pause_simulation s \<Longrightarrow>
   tick e (s, w) =
     (s, w\<lparr>calls := calls w @
        [Publish \<lparr>stamp = Time_now e (calls w),
                  name = map snd (joint_index_name_dic s),
                  position = map (\<lambda>entry. jointPosition (getJointState e (calls w) (robot s) (fst entry))) (joint_index_name_dic s),
                  velocity = map (\<lambda>entry. jointVelocity (getJointState e (calls w) (robot s) (fst entry))) (joint_index_name_dic s),
                  effort = map (\<lambda>entry. appliedJointMotorTorque (getJointState e (calls w) (robot s) (fst entry))) (joint_index_name_dic s)\<rparr>]
        @ map Execute (plugins s) @ [StepSimulation, Sleep (loop_rate s)]\<rparr>)"
  by (simp add: tick_def publish_joint_states_eq run_plugins_calls call_def)

lemma tick_ends_with_sleep:
  "last (calls (snd (tick e (s, w)))) = Sleep (loop_rate s)"
  by (cases "pause_simulation s") (simp_all add: tick_paused_eq tick_running_eq)

lemma tick_keeps_self: "fst (tick e (s, w)) = s"
  by (simp add: tick_def Let_def)

lemma init_pybullet_robot_calls:
  "calls (snd (init_pybullet_robot e w)) =
     calls w
     @ (if p_robot_urdf_path (params e) = None
        then [SignalShutdown ''mandatory param robot_urdf_path not set, will exit now'']
        else [])
     @ [SetGravity 0 0 (get_param (p_gravity (params e)) (- 981 / 100)),
        LoadURDF (Some ''plane.urdf'') None,
        SetRealTimeSimulation 0,
        LoadURDF (p_robot_urdf_path (params e))
          (Some \<lparr>basePosition = (get_param (p_robot_pose_x (params e)) 0,
                                  get_param (p_robot_pose_y (params e)) 0,
                                  get_param (p_robot_pose_z (params e)) 1),
                 baseOrientation = getQuaternionFromEuler e
                                     [0, 0, get_param (p_robot_pose_yaw (params e)) 0],
                 useFixedBase = get_param (p_fixed_base (params e)) False,
                 flags = (if get_param (p_use_intertia_from_file (params e)) False
                          then URDF_USE_INERTIA_FROM_FILE e OR URDF_USE_SELF_COLLISION e
                          else URDF_USE_SELF_COLLISION e)\<rparr>)]"
  by (simp add: init_pybullet_robot_def Let_def signal_shutdown_def)


lemma handle_reset_simulation_self:
  "fst (handle_reset_simulation e (s, w)) = s\<lparr>pause_simulation := False\<rparr>"
  by (simp add: handle_reset_simulation_def Let_def split: prod.splits)

lemma handle_pause_physics_flag:
  "pause_simulation (fst (handle_pause_physics (s, w))) = False"
  by (simp add: handle_pause_physics_def)

lemma handle_unpause_physics_flag:
  "pause_simulation (fst (handle_unpause_physics (s, w))) = True"
  by (simp add: handle_unpause_physics_def)

lemma handle_reset_simulation_robot:
  "robot (fst (handle_reset_simulation e (s, w))) = robot s"
  by (simp add: handle_reset_simulation_self)

text \<open>Whatever the flag was, the iteration after a pause request publishes and steps.\<close>

lemma tick_after_pause_request:
  "StepSimulation \<in> set (calls (snd (tick e (handle_pause_physics (s, w))))) \<and>
   list_ex (\<lambda>ev. case ev of Publish msg \<Rightarrow> True | _ \<Rightarrow> False)
     (calls (snd (tick e (handle_pause_physics (s, w)))))"
  by (simp add: handle_pause_physics_def tick_running_eq list_ex_iff)

text \<open>And the iteration after an unpause request only sleeps.\<close>

lemma tick_after_unpause_request:
  "calls (snd (tick e (handle_unpause_physics (s, w)))) =
     calls w @ [Loginfo ''unpausing simulation'', Sleep (loop_rate s)]"
  by (simp add: handle_unpause_physics_def tick_paused_eq)

subsection \<open>The joint table\<close>

lemma dict_setitem_fresh:
  "k \<notin> fst ` set d \<Longrightarrow> dict_setitem d k v = d @ [(k, v)]"
  by (induction d) auto

lemma revolute_loop_append:
  assumes "\<forall>i\<in>set idxs. jointType (info i) = 0 \<longrightarrow> dec (jointName (info i)) \<noteq> None"
    and "distinct idxs"
    and "set idxs \<inter> fst ` set d = {}"
  shows "revolute_loop dec info idxs d =
           Inr (d @ map (\<lambda>i. (i, the (dec (jointName (info i)))))
                      (filter (\<lambda>i. jointType (info i) = 0) idxs))"
  using assms
proof (induction idxs arbitrary: d)
  case Nil
  show ?case by simp
next
  case (Cons i idxs)
  show ?case
  proof (cases "jointType (info i) = 0")
    case False
    with Cons.prems have "revolute_loop dec info idxs d =
           Inr (d @ map (\<lambda>i. (i, the (dec (jointName (info i)))))
                      (filter (\<lambda>i. jointType (info i) = 0) idxs))"
      by (intro Cons.IH) auto
    with False show ?thesis by simp
  next
    case True
    with Cons.prems obtain nm where nm: "dec (jointName (info i)) = Some nm"
      by auto
    from Cons.prems have fresh: "i \<notin> fst ` set d"
      by auto
    have "revolute_loop dec info idxs (d @ [(i, nm)]) =
           Inr ((d @ [(i, nm)]) @ map (\<lambda>i. (i, the (dec (jointName (info i)))))
                      (filter (\<lambda>i. jointType (info i) = 0) idxs))"
      using Cons.prems by (intro Cons.IH) auto
    with True nm fresh show ?thesis
      by (simp add: dict_setitem_fresh)
  qed
qed

text \<open>A revolute joint whose name does not decode makes the whole call raise.\<close>

lemma revolute_loop_fails:
  assumes "i \<in> set idxs" "jointType (info i) = 0" "dec (jointName (info i)) = None"
  shows "revolute_loop dec info idxs d = Inl UnicodeDecodeError"
  using assms
  by (induction idxs arbitrary: d) (auto split: option.splits)

lemma set_range0: "set (range0 n) = {i. 0 \<le> i \<and> i < n}"
  by (auto simp add: range0_def)

lemma distinct_range0: "distinct (range0 n)"
  by (simp add: range0_def)

lemma map_of_tabulate:
  "map_of (map (\<lambda>i. (i, g i)) xs) k = (if k \<in> set xs then Some (g k) else None)"
  by (induction xs) auto

text \<open>A robot without revolute joints has the empty table.\<close>

lemma get_all_revolute_joint_names_empty:
  assumes "\<forall>i. 0 \<le> i \<and> i < getNumJoints e (calls w) rob \<longrightarrow>
             jointType (getJointInfo e (calls w) rob i) \<noteq> 0"
  shows "get_all_revolute_joint_names e rob w = Inr []"
proof -
  have "revolute_loop (decode e) (getJointInfo e (calls w) rob)
          (range0 (getNumJoints e (calls w) rob)) [] =
        Inr ([] @ map (\<lambda>i. (i, the (decode e (jointName (getJointInfo e (calls w) rob i)))))
                    (filter (\<lambda>i. jointType (getJointInfo e (calls w) rob i) = 0)
                       (range0 (getNumJoints e (calls w) rob))))"
    using assms by (intro revolute_loop_append) (auto simp add: set_range0 distinct_range0)
  moreover have "filter (\<lambda>i. jointType (getJointInfo e (calls w) rob i) = 0)
                   (range0 (getNumJoints e (calls w) rob)) = []"
    using assms by (auto simp add: filter_empty_conv set_range0)
  ultimately show ?thesis
    by (simp add: get_all_revolute_joint_names_def)
qed

lemma get_all_revolute_joint_names_fails:
  assumes "0 \<le> i" "i < getNumJoints e (calls w) rob"
    and "jointType (getJointInfo e (calls w) rob i) = 0"
    and "decode e (jointName (getJointInfo e (calls w) rob i)) = None"
  shows "get_all_revolute_joint_names e rob w = Inl UnicodeDecodeError"
  unfolding get_all_revolute_joint_names_def
  using assms by (intro revolute_loop_fails [of i]) (simp_all add: set_range0)

subsection \<open>The robot handle\<close>








lemma handle_keeps_robot: "robot (fst (handle e req sw)) = robot (fst sw)"
  by (cases req; cases sw)
     (simp_all add: handle_reset_simulation_self handle_pause_physics_def
        handle_unpause_physics_def)

lemma serve_keeps_robot: "robot (fst (fold (handle e) reqs sw)) = robot (fst sw)"
  by (induction reqs arbitrary: sw) (simp_all add: handle_keeps_robot)

lemma loop_keeps_robot:
  "robot (fst (start_pybullet_ros_wrapper e sched (s, w))) = robot s"
proof (induction sched arbitrary: s w)
  case Nil
  show ?case by simp
next
  case (Cons reqs sched)
  obtain s' w' where step: "fold (handle e) reqs (tick e (s, w)) = (s', w')"
    by (cases "fold (handle e) reqs (tick e (s, w))")
  have "robot s' = robot (fst (tick e (s, w)))"
    using serve_keeps_robot [of e reqs "tick e (s, w)"] step by simp
  then have "robot s' = robot s"
    by (simp add: tick_keeps_self)
  with Cons.IH [of s' w'] step show ?case
    by simp
qed


section \<open>The claims\<close>

subsection \<open>The tick loop\<close>

text \<open>
  C2. An iteration of the tick loop that finds the pause flag true at its check publishes
  no joint-state message, executes no plugin and does not step the backend: the only
  call it makes is the sleep of the loop rate, and the wrapper is unchanged.
\<close>

theorem tick_paused_only_sleeps:
  "pause_simulation s \<Longrightarrow> tick e (s, w) = (s, w\<lparr>calls := calls w @ [Sleep (loop_rate s)]\<rparr>)"
  by (rule tick_paused_eq)

theorem tick_paused_only_sleeps_witness:
  "pause_simulation (demo_self\<lparr>pause_simulation := True\<rparr>) \<and>
   tick demo_env (demo_self\<lparr>pause_simulation := True\<rparr>, demo_world) =
     (demo_self\<lparr>pause_simulation := True\<rparr>, \<lparr>calls = [Sleep 80], is_shutdown = False\<rparr>)"
  using tick_paused_only_sleeps [of "demo_self\<lparr>pause_simulation := True\<rparr>" demo_env demo_world]
  by (simp add: demo_self_def demo_world_def)

text \<open>
  C6. An iteration of the tick loop that finds the pause flag false makes, in this order,
  exactly these calls: one publish of the joint-state message (names, positions,
  velocities and applied efforts in the iteration order of the joint table, stamped with
  the current time), one \<^verbatim>\<open>execute()\<close> on each plugin in list order, one simulation step
  of the backend, and the sleep. The sleep is the last call of every iteration, paused
  or not.
\<close>

theorem tick_running_sequence:
  "(\<not> pause_simulation s \<longrightarrow>
    tick e (s, w) =
      (s, w\<lparr>calls := calls w @
         [Publish \<lparr>stamp = Time_now e (calls w),
                   name = map snd (joint_index_name_dic s),
                   position = map (\<lambda>entry. jointPosition (getJointState e (calls w) (robot s) (fst entry))) (joint_index_name_dic s),
                   velocity = map (\<lambda>entry. jointVelocity (getJointState e (calls w) (robot s) (fst entry))) (joint_index_name_dic s),
                   effort = map (\<lambda>entry. appliedJointMotorTorque (getJointState e (calls w) (robot s) (fst entry))) (joint_index_name_dic s)\<rparr>]
         @ map Execute (plugins s) @ [StepSimulation, Sleep (loop_rate s)]\<rparr>)) \<and>
   last (calls (snd (tick e (s, w)))) = Sleep (loop_rate s)"
  by (simp add: tick_running_eq tick_ends_with_sleep)

theorem tick_running_sequence_witness:
  "\<not> pause_simulation demo_self \<and>
   tick demo_env (demo_self, demo_world) =
     (demo_self,
      \<lparr>calls = [Publish \<lparr>stamp = 0, name = [''joint1'', ''joint3''], position = [0, 2],
                          velocity = [0, 0], effort = [0, 0]\<rparr>,
                 Execute demo_plugin, StepSimulation, Sleep 80],
       is_shutdown = False\<rparr>)"
  using tick_running_sequence [of demo_self demo_env demo_world]
  by (simp add: demo_self_def demo_world_def demo_env_def)

text \<open>
  C10. When the joint table is empty, an iteration that finds the pause flag false still
  publishes: its first call is the publish of a message whose name, position, velocity
  and effort lists are all empty, followed by the plugins, the step and the sleep.
\<close>

theorem tick_empty_table_publishes:
  "\<not> pause_simulation s \<Longrightarrow> joint_index_name_dic s = [] \<Longrightarrow>
   calls (snd (tick e (s, w))) =
     calls w @
     [Publish \<lparr>stamp = Time_now e (calls w), name = [], position = [],
               velocity = [], effort = []\<rparr>]
     @ map Execute (plugins s) @ [StepSimulation, Sleep (loop_rate s)]"
  by (simp add: tick_running_eq)

theorem tick_empty_table_publishes_witness:
  "\<not> pause_simulation (demo_self\<lparr>joint_index_name_dic := []\<rparr>) \<and>
   joint_index_name_dic (demo_self\<lparr>joint_index_name_dic := []\<rparr>) = [] \<and>
   calls (snd (tick demo_env (demo_self\<lparr>joint_index_name_dic := []\<rparr>, demo_world))) =
     [Publish \<lparr>stamp = 0, name = [], position = [], velocity = [], effort = []\<rparr>,
      Execute demo_plugin, StepSimulation, Sleep 80]"
  using tick_empty_table_publishes [of "demo_self\<lparr>joint_index_name_dic := []\<rparr>" demo_env demo_world]
  by (simp add: demo_self_def demo_world_def demo_env_def)

text \<open>
  C1. The claim: after a pause-physics request and until the next unpause-physics
  request, no iteration publishes a joint-state message or steps the backend. The code
  does the opposite: \<^verbatim>\<open>handle_pause_physics\<close> lowers the flag. Here the wrapper is paused,
  a pause request is served, two iterations run, and an unpause request is served during
  the second sleep: both iterations publish, execute the plugin and step.
\<close>

theorem pause_request_keeps_ticking:
  "calls (snd (start_pybullet_ros_wrapper demo_env [[], [unpause_physics]]
       (handle_pause_physics (demo_self\<lparr>pause_simulation := True\<rparr>, demo_world)))) =
     [Loginfo ''pausing simulation'',
      Publish \<lparr>stamp = 1, name = [''joint1'', ''joint3''], position = [0, 2],
               velocity = [0, 0], effort = [0, 0]\<rparr>,
      Execute demo_plugin, StepSimulation, Sleep 80,
      Publish \<lparr>stamp = 5, name = [''joint1'', ''joint3''], position = [0, 2],
               velocity = [0, 0], effort = [0, 0]\<rparr>,
      Execute demo_plugin, StepSimulation, Sleep 80,
      Loginfo ''unpausing simulation'',
      Disconnect]"
  by (simp add: handle_pause_physics_def handle_unpause_physics_def tick_running_eq
        demo_self_def demo_world_def demo_env_def call_def)

subsection \<open>The reset handler\<close>

text \<open>
  C7. The reset-simulation handler leaves the joint table and the plugin list as they
  were: both attributes are the same before and after the handler.
\<close>

theorem reset_keeps_joint_table_and_plugins:
  "joint_index_name_dic (fst (handle_reset_simulation e (s, w))) = joint_index_name_dic s \<and>
   plugins (fst (handle_reset_simulation e (s, w))) = plugins s"
  by (simp add: handle_reset_simulation_self)

theorem reset_keeps_joint_table_and_plugins_witness:
  "joint_index_name_dic (fst (handle_reset_simulation demo_env (demo_self, demo_world))) =
     [(0, ''joint1''), (2, ''joint3'')] \<and>
   plugins (fst (handle_reset_simulation demo_env (demo_self, demo_world))) = [demo_plugin]"
  using reset_keeps_joint_table_and_plugins [of demo_env demo_self demo_world]
  by (simp add: demo_self_def)

text \<open>
  C4, as stated: after the reset handler the pause flag has its value from before the
  reset. It fails for a wrapper that was paused: the handler leaves the flag false.
\<close>

theorem reset_flag_counterexample:
  "pause_simulation (fst (handle_reset_simulation demo_env
       (demo_self\<lparr>pause_simulation := True\<rparr>, demo_world)))
   \<noteq> pause_simulation (demo_self\<lparr>pause_simulation := True\<rparr>)"
  by (simp add: handle_reset_simulation_self)

text \<open>
  C4, amended. For every value of the pause flag before the reset, the flag is false
  after the reset handler; it equals the value from before the reset exactly when that
  value was false.
\<close>

theorem reset_leaves_flag_false:
  "pause_simulation (fst (handle_reset_simulation e (s, w))) = False \<and>
   (pause_simulation (fst (handle_reset_simulation e (s, w))) = pause_simulation s
      \<longleftrightarrow> \<not> pause_simulation s)"
  by (auto simp add: handle_reset_simulation_self)

theorem reset_leaves_flag_false_witness:
  "pause_simulation (fst (handle_reset_simulation demo_env
       (demo_self\<lparr>pause_simulation := True\<rparr>, demo_world))) = False"
  using reset_leaves_flag_false [of demo_env "demo_self\<lparr>pause_simulation := True\<rparr>" demo_world]
  by simp



subsection \<open>The joint table\<close>

text \<open>
  C5. For every joint list of the backend in which the names of the revolute joints
  decode, the joint table is built, its keys are the indices of the joints whose type
  code is the revolute constant 0, in increasing order, and it maps each of them to the
  decoded name of that joint; every other index is absent from the table.
\<close>

theorem joint_table_exactly_revolute:
  assumes "\<forall>i. 0 \<le> i \<and> i < getNumJoints e (calls w) rob \<and>
               jointType (getJointInfo e (calls w) rob i) = 0 \<longrightarrow>
             decode e (jointName (getJointInfo e (calls w) rob i)) \<noteq> None"
  shows "\<exists>tbl. get_all_revolute_joint_names e rob w = Inr tbl \<and>
           map fst tbl = filter (\<lambda>i. jointType (getJointInfo e (calls w) rob i) = 0)
                           (range0 (getNumJoints e (calls w) rob)) \<and>
           (\<forall>i. map_of tbl i =
              (if 0 \<le> i \<and> i < getNumJoints e (calls w) rob \<and>
                  jointType (getJointInfo e (calls w) rob i) = 0
               then decode e (jointName (getJointInfo e (calls w) rob i))
               else None))"
proof -
  let ?info = "getJointInfo e (calls w) rob"
  let ?idxs = "range0 (getNumJoints e (calls w) rob)"
  let ?tbl = "map (\<lambda>i. (i, the (decode e (jointName (?info i)))))
                (filter (\<lambda>i. jointType (?info i) = 0) ?idxs)"
  have "revolute_loop (decode e) ?info ?idxs [] = Inr ([] @ ?tbl)"
    using assms by (intro revolute_loop_append) (auto simp add: set_range0 distinct_range0)
  then have res: "get_all_revolute_joint_names e rob w = Inr ?tbl"
    by (simp add: get_all_revolute_joint_names_def)
  have keys: "map fst ?tbl = filter (\<lambda>i. jointType (?info i) = 0) ?idxs"
    by (simp add: comp_def)
  have look: "map_of ?tbl i =
      (if 0 \<le> i \<and> i < getNumJoints e (calls w) rob \<and> jointType (?info i) = 0
       then decode e (jointName (?info i)) else None)" for i
    using assms by (auto simp add: map_of_tabulate set_range0)
  from res keys look show ?thesis by blast
qed

theorem joint_table_exactly_revolute_witness:
  "decode demo_env (jointName (getJointInfo demo_env (calls demo_world) 1 0)) = Some ''joint1'' \<and>
   decode demo_env (jointName (getJointInfo demo_env (calls demo_world) 1 2)) = Some ''joint3'' \<and>
   (\<exists>tbl. get_all_revolute_joint_names demo_env 1 demo_world = Inr tbl \<and>
          map fst tbl = [0, 2] \<and>
          map_of tbl 0 = Some ''joint1'' \<and> map_of tbl 1 = None \<and>
          map_of tbl 2 = Some ''joint3'' \<and> map_of tbl 3 = None)"
proof -
  have names: "ascii_decode (jointName (demo_joints ! nat i)) \<noteq> None" if "0 \<le> i" "i < 3" for i
  proof -
    from that have "i = 0 \<or> i = 1 \<or> i = 2" by auto
    then show ?thesis
      by (auto simp add: demo_joints_def ascii_decode_def)
  qed
  then have h: "\<forall>i. 0 \<le> i \<and> i < getNumJoints demo_env (calls demo_world) 1 \<and>
         jointType (getJointInfo demo_env (calls demo_world) 1 i) = 0 \<longrightarrow>
       decode demo_env (jointName (getJointInfo demo_env (calls demo_world) 1 i)) \<noteq> None"
    by (simp add: demo_env_def)
  have keys: "filter (\<lambda>i. jointType (getJointInfo demo_env (calls demo_world) 1 i) = 0)
                (range0 (getNumJoints demo_env (calls demo_world) 1)) = [0, 2]"
    by code_simp
  have v0: "decode demo_env (jointName (getJointInfo demo_env (calls demo_world) 1 0)) = Some ''joint1''"
    by code_simp
  have v2: "decode demo_env (jointName (getJointInfo demo_env (calls demo_world) 1 2)) = Some ''joint3''"
    by code_simp
  have t0: "jointType (getJointInfo demo_env (calls demo_world) 1 0) = 0"
    and t1: "jointType (getJointInfo demo_env (calls demo_world) 1 1) \<noteq> 0"
    and t2: "jointType (getJointInfo demo_env (calls demo_world) 1 2) = 0"
    and n: "getNumJoints demo_env (calls demo_world) 1 = 3"
    by (simp_all add: demo_env_def demo_joints_def)
  from joint_table_exactly_revolute [OF h]
  obtain tbl where res: "get_all_revolute_joint_names demo_env 1 demo_world = Inr tbl"
    and k: "map fst tbl = filter (\<lambda>i. jointType (getJointInfo demo_env (calls demo_world) 1 i) = 0)
                            (range0 (getNumJoints demo_env (calls demo_world) 1))"
    and m: "\<And>i. map_of tbl i =
              (if 0 \<le> i \<and> i < getNumJoints demo_env (calls demo_world) 1 \<and>
                  jointType (getJointInfo demo_env (calls demo_world) 1 i) = 0
               then decode demo_env (jointName (getJointInfo demo_env (calls demo_world) 1 i))
               else None)"
    by blast
  have a: "map fst tbl = [0, 2]"
    using k unfolding keys .
  have b: "map_of tbl 0 = Some ''joint1''"
    using m [of 0] unfolding n t0 v0 by simp
  have c: "map_of tbl 1 = None"
    using m [of 1] t1 by simp
  have d: "map_of tbl 2 = Some ''joint3''"
    using m [of 2] unfolding n t2 v2 by simp
  have e: "map_of tbl 3 = None"
    using m [of 3] unfolding n by simp
  from res a b c d e
  have ex: "\<exists>tbl. get_all_revolute_joint_names demo_env 1 demo_world = Inr tbl \<and>
          map fst tbl = [0, 2] \<and>
          map_of tbl 0 = Some ''joint1'' \<and> map_of tbl 1 = None \<and>
          map_of tbl 2 = Some ''joint3'' \<and> map_of tbl 3 = None"
    by (intro exI [of _ tbl] conjI)
  from v0 v2 ex show ?thesis
    by (intro conjI)
qed

subsection \<open>Loading the robot\<close>

text \<open>
  C9, as stated: during startup the robot description is loaded before gravity is set and
  before the ground plane is loaded. In the calls of \<^verbatim>\<open>init_pybullet_robot\<close> no load of
  the robot is followed by the setting of gravity or by the load of the plane.
\<close>

theorem robot_loaded_first_counterexample:
  "\<not> (occurs_before is_robot_load is_SetGravity
         (calls (snd (init_pybullet_robot demo_env demo_world))) \<and>
       occurs_before is_robot_load is_plane_load
         (calls (snd (init_pybullet_robot demo_env demo_world))))"
  by (simp add: init_pybullet_robot_calls demo_env_def demo_params_def demo_world_def
        get_param_def is_robot_load_def is_SetGravity_def is_plane_load_def)

text \<open>
  C9, amended. During startup gravity is set, then the ground plane is loaded, then
  real-time simulation is switched off, and only then the robot description is loaded:
  these four backend calls are made in this order, after the shutdown request when the
  path is not set.
\<close>

theorem startup_call_order:
  "calls (snd (init_pybullet_robot e w)) =
     calls w
     @ (if p_robot_urdf_path (params e) = None
        then [SignalShutdown ''mandatory param robot_urdf_path not set, will exit now'']
        else [])
     @ [SetGravity 0 0 (get_param (p_gravity (params e)) (- 981 / 100)),
        LoadURDF (Some ''plane.urdf'') None,
        SetRealTimeSimulation 0,
        LoadURDF (p_robot_urdf_path (params e))
          (Some \<lparr>basePosition = (get_param (p_robot_pose_x (params e)) 0,
                                  get_param (p_robot_pose_y (params e)) 0,
                                  get_param (p_robot_pose_z (params e)) 1),
                 baseOrientation = getQuaternionFromEuler e
                                     [0, 0, get_param (p_robot_pose_yaw (params e)) 0],
                 useFixedBase = get_param (p_fixed_base (params e)) False,
                 flags = (if get_param (p_use_intertia_from_file (params e)) False
                          then URDF_USE_INERTIA_FROM_FILE e OR URDF_USE_SELF_COLLISION e
                          else URDF_USE_SELF_COLLISION e)\<rparr>)]"
  by (rule init_pybullet_robot_calls)

theorem startup_call_order_witness:
  "calls (snd (init_pybullet_robot demo_env demo_world)) =
     [SetGravity 0 0 (- 981 / 100),
      LoadURDF (Some ''plane.urdf'') None,
      SetRealTimeSimulation 0,
      LoadURDF (Some ''robot.urdf'')
        (Some \<lparr>basePosition = (0, 0, 1), baseOrientation = (0, 0, 0, 1),
               useFixedBase = False, flags = 8\<rparr>)]"
  using startup_call_order [of demo_env demo_world]
  by (simp add: demo_env_def demo_params_def demo_world_def get_param_def)

text \<open>
  C8. The claim: when the robot description path is not set, startup ends there and no
  robot is loaded with an undefined path. The code requests the shutdown and goes on:
  with the parameter absent, \<^verbatim>\<open>init_pybullet_robot\<close> still sets gravity, loads the
  plane and calls \<^verbatim>\<open>loadURDF\<close> with the path \<^verbatim>\<open>None\<close>.
\<close>

theorem missing_path_still_loads:
  "calls (snd (init_pybullet_robot no_path_env demo_world)) =
     [SignalShutdown ''mandatory param robot_urdf_path not set, will exit now'',
      SetGravity 0 0 (- 981 / 100),
      LoadURDF (Some ''plane.urdf'') None,
      SetRealTimeSimulation 0,
      LoadURDF None
        (Some \<lparr>basePosition = (0, 0, 1), baseOrientation = (0, 0, 0, 1),
               useFixedBase = False, flags = 8\<rparr>)]"
  by (simp add: init_pybullet_robot_calls no_path_env_def demo_env_def demo_params_def
        demo_world_def get_param_def)

end
